theory Spec2Isabelle
  imports Main "HOL-Library.Product_Lexorder" "HOL-Library.Multiset"
begin

section \<open>Kernel Debug Kit handler (resources/kdk_handler.py)\<close>

subsection \<open>String helpers of the Python source\<close>

text \<open>\<^verbatim>\<open>s.endswith(suf)\<close>.\<close>

definition endswith :: "string \<Rightarrow> string \<Rightarrow> bool" where
  "endswith s suf = (length suf \<le> length s \<and> drop (length s - length suf) s = suf)"

text \<open>\<^verbatim>\<open>s.startswith(p)\<close>, used to write \<^verbatim>\<open>sub in s\<close>.\<close>

definition startswith :: "string \<Rightarrow> string \<Rightarrow> bool" where
  "startswith s p = (take (length p) s = p)"

text \<open>\<^verbatim>\<open>sub in s\<close> on strings.\<close>

fun str_in :: "string \<Rightarrow> string \<Rightarrow> bool" where
  "str_in sub [] = (sub = [])"
| "str_in sub (c # cs) = (startswith (c # cs) sub \<or> str_in sub cs)"

subsection \<open>The cache directory /Library/Developer/KDKs\<close>

text \<open>
  One entry of \<^verbatim>\<open>Path("/Library/Developer/KDKs").iterdir()\<close>: its name, whether it is a
  directory, and the relative paths that exist beneath it.
\<close>

record dir_entry =
  name :: string
  is_dir :: bool
  contents :: "string list"

text \<open>
  The state the handler acts on: the listing of the cache directory in iteration order
  (\<open>None\<close> when the directory does not exist) and the links transferred to
  \<^verbatim>\<open>kdk_download_path\<close> so far.
\<close>

record state =
  kdks_root :: "dir_entry list option"
  transfers :: "string list"

text \<open>
  Modelled from the spec: \<^verbatim>\<open>utilities.elevated(["rm", "-rf", file])\<close>, the
  privileged-delete capability, removes the named directory from the cache root.
\<close>

definition elevated_rm_rf :: "string \<Rightarrow> state \<Rightarrow> state" where
  "elevated_rm_rf n s =
     s\<lparr>kdks_root := map_option (filter (\<lambda>e. name e \<noteq> n)) (kdks_root s)\<rparr>"

subsection \<open>remove_unused_kdks\<close>

text \<open>
  The inner loop over \<^verbatim>\<open>exclude_builds\<close>: \<^verbatim>\<open>should_remove\<close> starts as True and
  becomes False at the first non-empty build whose suffix the folder name carries.
\<close>

fun should_remove :: "string list \<Rightarrow> string \<Rightarrow> bool" where
  "should_remove [] nm = True"
| "should_remove (b # bs) nm =
     (if b \<noteq> [] \<and> endswith nm (b @ ''.kdk'') then False else should_remove bs nm)"

text \<open>The outer loop over the snapshot that \<^verbatim>\<open>iterdir()\<close> took.\<close>

fun prune_loop :: "string list \<Rightarrow> dir_entry list \<Rightarrow> state \<Rightarrow> state" where
  "prune_loop ex [] s = s"
| "prune_loop ex (f # fs) s =
     (if is_dir f \<and> endswith (name f) ''.kdk'' \<and> should_remove ex (name f)
      then prune_loop ex fs (elevated_rm_rf (name f) s)
      else prune_loop ex fs s)"

text \<open>\<^verbatim>\<open>nuke\<close> is \<^verbatim>\<open>self.constants.should_nuke_kdks\<close>.\<close>

definition remove_unused_kdks :: "bool \<Rightarrow> string list \<Rightarrow> state \<Rightarrow> state" where
  "remove_unused_kdks nuke exclude_builds s =
     (if \<not> nuke then s
      else case kdks_root s of
        None \<Rightarrow> s
      | Some entries \<Rightarrow>
          if exclude_builds = [] then s else prune_loop exclude_builds entries s)"

subsection \<open>is_kdk_installed\<close>

definition kexts_to_check :: "string list" where
  "kexts_to_check =
     [''System.kext/PlugIns/Libkern.kext/Libkern'',
      ''apfs.kext/Contents/MacOS/apfs'',
      ''IOUSBHostFamily.kext/Contents/MacOS/IOUSBHostFamily'',
      ''AMDRadeonX6000.kext/Contents/MacOS/AMDRadeonX6000'']"

text \<open>
  The loop over \<^verbatim>\<open>kexts_to_check\<close>: True when
  \<^verbatim>\<open>Path(f"{file}/System/Library/Extensions/{kext}").exists()\<close> for every kext.
\<close>

fun kexts_exist :: "dir_entry \<Rightarrow> string list \<Rightarrow> bool" where
  "kexts_exist f [] = True"
| "kexts_exist f (kext # ks) =
     (if (''System/Library/Extensions/'' @ kext) \<notin> set (contents f) then False
      else kexts_exist f ks)"

text \<open>
  The loop over \<^verbatim>\<open>iterdir()\<close>: the first directory carrying the suffix decides; a
  corrupted one is removed and the answer is False.
\<close>

fun installed_loop :: "string \<Rightarrow> dir_entry list \<Rightarrow> state \<Rightarrow> bool \<times> state" where
  "installed_loop build [] s = (False, s)"
| "installed_loop build (f # fs) s =
     (if is_dir f \<and> endswith (name f) (build @ ''.kdk'')
      then (if kexts_exist f kexts_to_check then (True, s)
            else (False, elevated_rm_rf (name f) s))
      else installed_loop build fs s)"

definition is_kdk_installed :: "string \<Rightarrow> state \<Rightarrow> bool \<times> state" where
  "is_kdk_installed build s =
     (case kdks_root s of
        None \<Rightarrow> (False, s)
      | Some entries \<Rightarrow> installed_loop build entries s)"

subsection \<open>The remote services and the libraries\<close>

text \<open>The exceptions of \<^verbatim>\<open>requests\<close>; the handler catches the first three by name.\<close>

datatype request_exception = Timeout | TooManyRedirects | ConnectionError | OtherRequestException

definition caught :: "request_exception \<Rightarrow> bool" where
  "caught x = (x = Timeout \<or> x = TooManyRedirects \<or> x = ConnectionError)"

text \<open>An exception that leaves a function of the handler.\<close>

datatype fault = RequestException request_exception | InvalidVersion | ValueError | TypeError

text \<open>A GET either raises or gives a status code and a (decoded) body.\<close>

datatype 'a http = Raises request_exception | Response int 'a

record kdk_entry =
  kdk_version :: string
  kdk_build :: string
  kdk_date :: string
  kdk_url :: string

record db_entry =
  db_osType :: string
  db_version :: string
  db_build :: string
  db_released :: string

record asset =
  asset_name :: string
  browser_download_url :: string

record release =
  tag_name :: string
  assets :: "asset list"

text \<open>
  A \<^verbatim>\<open>datetime\<close> is offset-naive or offset-aware, with its position \<open>'d\<close> on the time
  line of its kind. A naive and an aware one are never equal, and ordering one against the
  other raises TypeError.
\<close>

datatype 'd datetime = Naive 'd | Aware 'd

fun instant :: "'d datetime \<Rightarrow> 'd" where
  "instant (Naive t) = t"
| "instant (Aware t) = t"

fun aware :: "'d datetime \<Rightarrow> bool" where
  "aware (Naive t) = False"
| "aware (Aware t) = True"

text \<open>
  Everything outside the handler, taken as given: \<^verbatim>\<open>packaging.version\<close> (parse, with
  \<open>None\<close> for InvalidVersion; the comparison key \<open>'k\<close> of a version \<open>'v\<close>, by which
  \<^verbatim>\<open>==\<close> and \<^verbatim>\<open><=\<close> go, so that two versions written differently may compare equal;
  major, minor, str), \<^verbatim>\<open>datetime.datetime.fromisoformat\<close> (\<open>None\<close> for ValueError),
  the four remote services, \<^verbatim>\<open>utilities.verify_network_connection\<close>, the two download
  functions of \<^verbatim>\<open>utilities\<close>, the return code of \<^verbatim>\<open>hdiutil verify\<close> on the downloaded
  file, and \<^verbatim>\<open>constants.should_nuke_kdks\<close>. The token request is keyed by the link whose
  path it carries. A \<open>char\<close> stands for a code point below 256.
\<close>

record ('v, 'k, 'd) world =
  version_parse :: "string \<Rightarrow> 'v option"
  version_key :: "'v \<Rightarrow> 'k"
  version_major :: "'v \<Rightarrow> int"
  version_minor :: "'v \<Rightarrow> int"
  version_str :: "'v \<Rightarrow> string"
  fromisoformat :: "string \<Rightarrow> 'd datetime option"
  kdk_api :: "kdk_entry list http"
  os_database :: "db_entry list http"
  verify_network_connection :: bool
  token_request :: "string \<Rightarrow> string http"
  mirror_repository :: "release list http"
  download_file :: "string \<Rightarrow> bool"
  download_apple_developer_portal :: "string \<Rightarrow> bool"
  hdiutil_verify :: "string \<Rightarrow> int"
  should_nuke_kdks :: bool

subsection \<open>sorted(..., key=..., reverse=True)\<close>

text \<open>The keys are computed first, left to right; the first key that raises ends the sort.\<close>

fun with_keys :: "('a \<Rightarrow> fault + 'k) \<Rightarrow> 'a list \<Rightarrow> fault + ('k \<times> 'a) list" where
  "with_keys key [] = Inr []"
| "with_keys key (x # xs) =
     (case key x of
        Inl e \<Rightarrow> Inl e
      | Inr k \<Rightarrow> (case with_keys key xs of
                    Inl e \<Rightarrow> Inl e
                  | Inr ks \<Rightarrow> Inr ((k, x) # ks)))"

text \<open>
  Two sort keys (version key, date) that cannot be ordered: the version keys are equal and
  one date is naive, the other aware.
\<close>

definition unorderable :: "'k \<times> 'd datetime \<Rightarrow> 'k \<times> 'd datetime \<Rightarrow> bool" where
  "unorderable a b = (fst a = fst b \<and> aware (snd a) \<noteq> aware (snd b))"

fun clash :: "('k \<times> 'd datetime) list \<Rightarrow> bool" where
  "clash [] = False"
| "clash (a # as) = (list_ex (unorderable a) as \<or> clash as)"

text \<open>Where keys can be ordered, they are ordered as these pairs are.\<close>

definition ordering_key :: "('k \<times> 'd datetime) \<times> 'a \<Rightarrow> 'k \<times> 'd" where
  "ordering_key p = (fst (fst p), instant (snd (fst p)))"

text \<open>
  A stable sort with \<^verbatim>\<open>reverse=True\<close>: the list is reversed, sorted stably in ascending
  order and reversed again, so that equal keys keep their original order. A comparison sort
  compares every two elements that end up next to each other, so the sort raises TypeError
  exactly when two of the keys cannot be ordered.
\<close>

definition sorted_reverse ::
  "('a \<Rightarrow> fault + 'k::linorder \<times> ('d::linorder) datetime) \<Rightarrow> 'a list \<Rightarrow> fault + 'a list" where
  "sorted_reverse key xs =
     (case with_keys key xs of
        Inl e \<Rightarrow> Inl e
      | Inr ks \<Rightarrow>
          if clash (map fst ks) then Inl TypeError
          else Inr (map snd (rev (sort_key ordering_key (rev ks)))))"

subsection \<open>get_available_kdks\<close>

definition kdk_sort_key ::
  "('v, 'k, 'd) world \<Rightarrow> kdk_entry \<Rightarrow> fault + 'k \<times> 'd datetime" where
  "kdk_sort_key w x =
     (case version_parse w (kdk_version x) of
        None \<Rightarrow> Inl InvalidVersion
      | Some v \<Rightarrow> (case fromisoformat w (kdk_date x) of
                    None \<Rightarrow> Inl ValueError
                  | Some d \<Rightarrow> Inr (version_key w v, d)))"

definition get_available_kdks ::
  "('v, 'k::linorder, 'd::linorder) world \<Rightarrow> fault + kdk_entry list option" where
  "get_available_kdks w =
     (case kdk_api w of
        Raises x \<Rightarrow> if caught x then Inr None else Inl (RequestException x)
      | Response status_code json \<Rightarrow>
          if status_code \<noteq> 200 then Inr None
          else (case sorted_reverse (kdk_sort_key w) json of
                  Inl e \<Rightarrow> Inl e
                | Inr l \<Rightarrow> Inr (Some l)))"

subsection \<open>get_closest_match_legacy\<close>

definition is_digit :: "char \<Rightarrow> bool" where
  "is_digit c = (c \<in> set ''0123456789'')"

text \<open>
  \<^verbatim>\<open>VERSION_PATTERN.match(s)\<close> for \<^verbatim>\<open>\d+\.\d+(\.\d+)?\<close>: the matched prefix, or
  \<open>None\<close>. Among the code points below 256 the decimal digits that \<^verbatim>\<open>\d\<close> matches are
  0 to 9.
\<close>

text \<open>\<^verbatim>\<open>\d+\<close> at the start of \<open>s\<close>: the digits and what follows them.\<close>

definition digits_then :: "string \<Rightarrow> (string \<times> string) option" where
  "digits_then s =
     (if takeWhile is_digit s = [] then None
      else Some (takeWhile is_digit s, dropWhile is_digit s))"

definition version_pattern_match :: "string \<Rightarrow> string option" where
  "version_pattern_match s =
     (case digits_then s of
        None \<Rightarrow> None
      | Some (d1, r1) \<Rightarrow>
          (case r1 of
             [] \<Rightarrow> None
           | c # r2 \<Rightarrow>
               (if c \<noteq> CHR ''.'' then None
                else (case digits_then r2 of
                        None \<Rightarrow> None
                      | Some (d2, r3) \<Rightarrow>
                          (case r3 of
                             [] \<Rightarrow> Some (d1 @ [CHR ''.''] @ d2)
                           | c3 # r4 \<Rightarrow>
                               (case digits_then r4 of
                                  None \<Rightarrow> Some (d1 @ [CHR ''.''] @ d2)
                                | Some (d3, r5) \<Rightarrow>
                                    (if c3 = CHR ''.''
                                     then Some (d1 @ [CHR ''.''] @ d2 @ [CHR ''.''] @ d3)
                                     else Some (d1 @ [CHR ''.''] @ d2))))))))"

definition generate_kdk_link :: "string \<Rightarrow> string \<Rightarrow> string" where
  "generate_kdk_link version build =
     ''https://download.developer.apple.com/macOS/Kernel_Debug_Kit_'' @ version @ ''_build_''
       @ build @ ''/Kernel_Debug_Kit_'' @ version @ ''_build_'' @ build @ ''.dmg''"

definition legacy_sort_key ::
  "('v, 'k, 'd) world \<Rightarrow> db_entry \<Rightarrow> fault + 'k \<times> 'd datetime" where
  "legacy_sort_key w x =
     (case version_parse w (case version_pattern_match (db_version x) of
                              Some t \<Rightarrow> t
                            | None \<Rightarrow> ''0.0.0'') of
        None \<Rightarrow> Inl InvalidVersion
      | Some v \<Rightarrow>
          (case fromisoformat w (if db_released x \<noteq> [] then db_released x else ''1984-01-01'') of
             None \<Rightarrow> Inl ValueError
           | Some d \<Rightarrow> Inr (version_key w v, d)))"

text \<open>The test of the \<^verbatim>\<open>elif\<close> in the scan.\<close>

definition legacy_matches :: "('v, 'k::linorder, 'd) world \<Rightarrow> 'v \<Rightarrow> 'v \<Rightarrow> bool" where
  "legacy_matches w version parsed_host_version =
     (version_key w version \<le> version_key w parsed_host_version
      \<and> version_major w version = version_major w parsed_host_version
      \<and> version_minor w version = version_minor w parsed_host_version)"

fun legacy_scan ::
  "('v, 'k::linorder, 'd) world \<Rightarrow> 'v \<Rightarrow> string \<Rightarrow> db_entry list
     \<Rightarrow> fault + (string option \<times> string \<times> string)" where
  "legacy_scan w phv host_build [] = Inr (None, [], [])"
| "legacy_scan w phv host_build (build_info # rest) =
     (if db_osType build_info = ''macOS'' then
        (case version_pattern_match (db_version build_info) of
           None \<Rightarrow> legacy_scan w phv host_build rest
         | Some raw_version \<Rightarrow>
             (case version_parse w raw_version of
                None \<Rightarrow> Inl InvalidVersion
              | Some version \<Rightarrow>
                  if db_build build_info = host_build then legacy_scan w phv host_build rest
                  else if legacy_matches w version phv
                  then Inr (Some (generate_kdk_link (version_str w version) (db_build build_info)),
                            version_str w version, db_build build_info)
                  else legacy_scan w phv host_build rest))
      else legacy_scan w phv host_build rest)"

definition get_closest_match_legacy ::
  "('v, 'k::linorder, 'd::linorder) world \<Rightarrow> string \<Rightarrow> string
     \<Rightarrow> fault + (string option \<times> string \<times> string)" where
  "get_closest_match_legacy w host_version host_build =
     (case version_parse w host_version of
        None \<Rightarrow> Inl InvalidVersion
      | Some parsed_host_version \<Rightarrow>
          (case os_database w of
             Raises x \<Rightarrow> if caught x then Inr (None, [], []) else Inl (RequestException x)
           | Response status_code ios \<Rightarrow>
               if status_code \<noteq> 200 then Inr (None, [], [])
               else (case sorted_reverse (legacy_sort_key w)
                            (filter (\<lambda>i. db_osType i = ''macOS'') ios) of
                       Inl e \<Rightarrow> Inl e
                     | Inr macos_builds \<Rightarrow>
                         legacy_scan w parsed_host_version host_build macos_builds)))"

subsection \<open>verify_apple_developer_portal\<close>

text \<open>
  \<^verbatim>\<open>response.raise_for_status()\<close> of \<^verbatim>\<open>requests\<close> raises HTTPError for the client and
  server error codes, 400 to 599, and for no other status.
\<close>

definition raise_for_status_raises :: "int \<Rightarrow> bool" where
  "raise_for_status_raises status_code = (400 \<le> status_code \<and> status_code < 600)"

text \<open>
  The return codes, as the source's comment gives them: 0 portal up and file available,
  1 portal up but file not available, 2 portal down, 3 network error.
\<close>

definition verify_apple_developer_portal :: "('v, 'k, 'd) world \<Rightarrow> string \<Rightarrow> fault + nat" where
  "verify_apple_developer_portal w link =
     (if \<not> verify_network_connection w then Inr 3
      else case token_request w link of
        Raises x \<Rightarrow> if caught x then Inr 2 else Inl (RequestException x)
      | Response status_code text \<Rightarrow>
          if raise_for_status_raises status_code
          then (if status_code = 400 \<and> str_in ''The path specified is invalid'' text
                then Inr 1 else Inr 2)
          else Inr 0)"

subsection \<open>kdk_backup_site\<close>

fun first_dmg :: "asset list \<Rightarrow> string option" where
  "first_dmg [] = None"
| "first_dmg (a # as) =
     (if endswith (asset_name a) ''.dmg'' then Some (browser_download_url a) else first_dmg as)"

fun mirror_scan :: "string \<Rightarrow> release list \<Rightarrow> string option" where
  "mirror_scan build [] = None"
| "mirror_scan build (r # rs) =
     (if tag_name r = build
      then (case first_dmg (assets r) of
              Some u \<Rightarrow> Some u
            | None \<Rightarrow> mirror_scan build rs)
      else mirror_scan build rs)"

text \<open>\<^verbatim>\<open>requests.get\<close> is called outside any \<^verbatim>\<open>try\<close>: whatever it raises leaves the function.\<close>

definition kdk_backup_site :: "('v, 'k, 'd) world \<Rightarrow> string \<Rightarrow> fault + string option" where
  "kdk_backup_site w build =
     (case mirror_repository w of
        Raises x \<Rightarrow> Inl (RequestException x)
      | Response status_code catalog \<Rightarrow>
          if status_code \<noteq> 200 then Inr None else Inr (mirror_scan build catalog))"

subsection \<open>download_kdk\<close>

text \<open>The four locals that the resolution of the catalog sets.\<close>

record candidates =
  download_link :: "string option"
  closest_match_download_link :: "string option"
  closest_version :: string
  closest_build :: string

text \<open>Truth value of a link: \<^verbatim>\<open>None\<close> and the empty string are false.\<close>

definition truthy :: "string option \<Rightarrow> bool" where
  "truthy l = (l \<noteq> None \<and> l \<noteq> Some [])"

text \<open>The test of the \<^verbatim>\<open>elif\<close> in the loop over the catalog, without its first conjunct.\<close>

definition closest_matches :: "('v, 'k::linorder, 'd) world \<Rightarrow> 'v \<Rightarrow> 'v \<Rightarrow> bool" where
  "closest_matches w kdk_v parsed_version =
     (version_key w kdk_v \<le> version_key w parsed_version
      \<and> version_major w kdk_v = version_major w parsed_version
      \<and> (version_minor w kdk_v = version_minor w parsed_version
         \<or> version_minor w kdk_v = version_minor w parsed_version - 1))"

fun catalog_scan ::
  "('v, 'k::linorder, 'd) world \<Rightarrow> 'v \<Rightarrow> string \<Rightarrow> kdk_entry list \<Rightarrow> candidates
     \<Rightarrow> fault + candidates" where
  "catalog_scan w parsed_version build [] c = Inr c"
| "catalog_scan w parsed_version build (kdk # rest) c =
     (case version_parse w (kdk_version kdk) of
        None \<Rightarrow> Inl InvalidVersion
      | Some kdk_v \<Rightarrow>
          if kdk_build kdk = build
          then catalog_scan w parsed_version build rest (c\<lparr>download_link := Some (kdk_url kdk)\<rparr>)
          else if \<not> truthy (closest_match_download_link c)
                  \<and> closest_matches w kdk_v parsed_version
          then catalog_scan w parsed_version build rest
                 (c\<lparr>closest_match_download_link := Some (kdk_url kdk),
                    closest_version := kdk_version kdk,
                    closest_build := kdk_build kdk\<rparr>)
          else catalog_scan w parsed_version build rest c)"

definition no_candidates :: candidates where
  "no_candidates =
     \<lparr>download_link = None, closest_match_download_link = None,
      closest_version = [], closest_build = []\<rparr>"

text \<open>Lines 136 to 158: the catalog, or the brute-force link and the legacy match.\<close>

definition resolve_candidates ::
  "('v, 'k::linorder, 'd::linorder) world \<Rightarrow> string \<Rightarrow> string \<Rightarrow> fault + candidates" where
  "resolve_candidates w version build =
     (case get_available_kdks w of
        Inl e \<Rightarrow> Inl e
      | Inr kdk_list \<Rightarrow>
          (case version_parse w version of
             None \<Rightarrow> Inl InvalidVersion
           | Some parsed_version \<Rightarrow>
               (case kdk_list of
                  Some (kdk # rest) \<Rightarrow>
                    catalog_scan w parsed_version build (kdk # rest) no_candidates
                | _ \<Rightarrow>
                    (case get_closest_match_legacy w version build of
                       Inl e \<Rightarrow> Inl e
                     | Inr (l, cv, cb) \<Rightarrow>
                         Inr \<lparr>download_link = Some (generate_kdk_link version build),
                              closest_match_download_link = l,
                              closest_version = cv, closest_build = cb\<rparr>))))"

type_synonym outcome = "(bool \<times> string \<times> string) \<times> state"

definition checksum_msg :: string where
  "checksum_msg =
     ''Kernel Debug Kit checksum verification failed, please try again.'' @ [CHR 0x0A, CHR 0x0A]
       @ ''If this continues to fail, ensure you'' @ [CHR 0x27]
       @ ''re downloading on a stable network connection (ie. Ethernet)''"

text \<open>
  Lines 211 to 228: the transfer of \<^verbatim>\<open>download_link\<close> to \<^verbatim>\<open>kdk_download_path\<close>, the
  check of the image and the pruning.
\<close>

definition transfer ::
  "('v, 'k, 'd) world \<Rightarrow> string \<Rightarrow> string \<Rightarrow> string \<Rightarrow> state \<Rightarrow> outcome" where
  "transfer w detected_build closest_b link s =
     (let s1 = s\<lparr>transfers := transfers s @ [link]\<rparr>;
          result = (if str_in ''github'' link then download_file w link
                    else download_apple_developer_portal w link)
      in if result
         then (if hdiutil_verify w link \<noteq> 0 then ((False, checksum_msg, []), s1)
               else ((True, [], detected_build),
                     remove_unused_kdks (should_nuke_kdks w) [detected_build, closest_b] s1))
         else ((False, ''Failed to download KDK'', []), s1))"

text \<open>Lines 199 to 205 and 188 to 194: the mirror, when the portal is down.\<close>

definition via_backup_site ::
  "('v, 'k, 'd) world \<Rightarrow> string \<Rightarrow> string \<Rightarrow> string \<Rightarrow> state \<Rightarrow> fault + outcome" where
  "via_backup_site w detected_build closest_b mirror_build s =
     (case kdk_backup_site w mirror_build of
        Inl e \<Rightarrow> Inl e
      | Inr None \<Rightarrow>
          Inr ((False, ''Could not contact Apple download servers''
                         @ '' and could not find a backup copy online'', []), s)
      | Inr (Some l) \<Rightarrow> Inr (transfer w detected_build closest_b l s))"

text \<open>Lines 165 to 198: the branch \<^verbatim>\<open>result == 1\<close>.\<close>

definition closest_path ::
  "('v, 'k, 'd) world \<Rightarrow> string \<Rightarrow> candidates \<Rightarrow> state \<Rightarrow> fault + outcome" where
  "closest_path w detected_build c s =
     (case is_kdk_installed (closest_build c) s of
        (True, s2) \<Rightarrow>
          Inr ((True, [], closest_build c),
               remove_unused_kdks (should_nuke_kdks w) [detected_build, closest_build c] s2)
      | (False, s2) \<Rightarrow>
          (case closest_match_download_link c of
             None \<Rightarrow> Inr ((False, ''Could not find KDK for host, nor closest match'', []), s2)
           | Some cl \<Rightarrow>
               (case verify_apple_developer_portal w cl of
                  Inl e \<Rightarrow> Inl e
                | Inr result \<Rightarrow>
                    if result = 0 then Inr (transfer w detected_build (closest_build c) cl s2)
                    else if result = 1
                    then Inr ((False, ''Could not find KDK for host on Apple'' @ [CHR 0x27]
                                 @ ''s servers, nor closest match'', []), s2)
                    else if result = 2
                    then via_backup_site w detected_build (closest_build c) (closest_build c) s2
                    else Inr ((False, ''Unknown error'', []), s2))))"

definition download_kdk ::
  "('v, 'k::linorder, 'd::linorder) world \<Rightarrow> string \<Rightarrow> string \<Rightarrow> state \<Rightarrow> fault + outcome" where
  "download_kdk w version build s =
     (let detected_build = build in
      case is_kdk_installed detected_build s of
        (True, s1) \<Rightarrow>
          Inr ((True, [], detected_build),
               remove_unused_kdks (should_nuke_kdks w) [detected_build] s1)
      | (False, s1) \<Rightarrow>
          (case resolve_candidates w version build of
             Inl e \<Rightarrow> Inl e
           | Inr c \<Rightarrow>
               (case download_link c of
                  None \<Rightarrow> closest_path w detected_build c s1
                | Some dl \<Rightarrow>
                    if dl = [] then closest_path w detected_build c s1
                    else (case verify_apple_developer_portal w dl of
                            Inl e \<Rightarrow> Inl e
                          | Inr result \<Rightarrow>
                              if result = 1 then closest_path w detected_build c s1
                              else if result = 2
                              then via_backup_site w detected_build (closest_build c) build s1
                              else if result = 3
                              then Inr ((False, ''Failed to connect to the internet'', []), s1)
                              else Inr (transfer w detected_build (closest_build c) dl s1)))))"

section \<open>Auxiliary notions and sample inputs\<close>

text \<open>The names that one pass of the pruning loop over \<open>fs\<close> deletes.\<close>

definition doomed :: "string list \<Rightarrow> dir_entry list \<Rightarrow> string set" where
  "doomed ex fs =
     name ` {f \<in> set fs. is_dir f \<and> endswith (name f) ''.kdk'' \<and> should_remove ex (name f)}"

subsection \<open>The closest match, in the words of the specification\<close>

text \<open>
  The version the matcher reads off a record: the parsed leading \<^verbatim>\<open>major.minor(.patch)\<close>
  token of its free-text version, if there is one.
\<close>

definition entry_version :: "('v, 'k, 'd) world \<Rightarrow> db_entry \<Rightarrow> 'v option" where
  "entry_version w e =
     (case version_pattern_match (db_version e) of
        None \<Rightarrow> None
      | Some t \<Rightarrow> version_parse w t)"

text \<open>
  A record qualifies when its build is not the host's and its version is at most the host
  version with the host's major and minor.
\<close>

definition qualifies :: "('v, 'k::linorder, 'd) world \<Rightarrow> 'v \<Rightarrow> string \<Rightarrow> db_entry \<Rightarrow> bool" where
  "qualifies w hv hb e =
     (db_build e \<noteq> hb
      \<and> (case entry_version w e of
            None \<Rightarrow> False
          | Some v \<Rightarrow> version_key w v \<le> version_key w hv
                       \<and> version_major w v = version_major w hv
                       \<and> version_minor w v = version_minor w hv))"

text \<open>
  The first qualifying record of the sorted list, as (generated link, version, build); a
  candidate without link if none qualifies.
\<close>

definition closest_match_spec ::
  "('v, 'k::linorder, 'd) world \<Rightarrow> 'v \<Rightarrow> string \<Rightarrow> db_entry list
     \<Rightarrow> string option \<times> string \<times> string" where
  "closest_match_spec w hv hb builds =
     (case find (qualifies w hv hb) builds of
        None \<Rightarrow> (None, [], [])
      | Some e \<Rightarrow>
          (case entry_version w e of
             None \<Rightarrow> (None, [], [])
           | Some v \<Rightarrow> (Some (generate_kdk_link (version_str w v) (db_build e)),
                         version_str w v, db_build e)))"

text \<open>
  The primary candidate counts as unavailable: there is no link, the link is empty (both
  skip the probe), or the probe of the link returns 1.
\<close>

definition primary_unavailable :: "('v, 'k, 'd) world \<Rightarrow> candidates \<Rightarrow> bool" where
  "primary_unavailable w c =
     (case download_link c of
        None \<Rightarrow> True
      | Some dl \<Rightarrow> dl = [] \<or> verify_apple_developer_portal w dl = Inr 1)"

text \<open>
  The resolution takes the branch of lines 168 to 171: the requested build is not installed,
  the candidates are \<open>c\<close>, the primary candidate is unavailable and the closest build is
  found installed.
\<close>

definition takes_closest_installed ::
  "('v, 'k::linorder, 'd::linorder) world \<Rightarrow> string \<Rightarrow> string \<Rightarrow> state \<Rightarrow> candidates \<Rightarrow> bool" where
  "takes_closest_installed w version build s c =
     (\<not> fst (is_kdk_installed build s)
      \<and> resolve_candidates w version build = Inr c
      \<and> primary_unavailable w c
      \<and> fst (is_kdk_installed (closest_build c) (snd (is_kdk_installed build s))))"

text \<open>The test of the loop of \<^verbatim>\<open>is_kdk_installed\<close> on one entry.\<close>

definition carries_suffix :: "string \<Rightarrow> dir_entry \<Rightarrow> bool" where
  "carries_suffix build f = (is_dir f \<and> endswith (name f) (build @ ''.kdk''))"

subsection \<open>Sample inputs\<close>

text \<open>The marker paths of an intact kit.\<close>

definition intact :: "string list" where
  "intact = map (\<lambda>kext. ''System/Library/Extensions/'' @ kext) kexts_to_check"

definition kit_23E214 :: dir_entry where
  "kit_23E214 = \<lparr>name = ''KDK_14.4_23E214.kdk'', is_dir = True, contents = intact\<rparr>"

definition kit_23D60 :: dir_entry where
  "kit_23D60 = \<lparr>name = ''KDK_14.3_23D60.kdk'', is_dir = True, contents = intact\<rparr>"

definition kit_broken :: dir_entry where
  "kit_broken = \<lparr>name = ''KDK_13.6_22G120.kdk'', is_dir = True, contents = []\<rparr>"

definition notes_txt :: dir_entry where
  "notes_txt = \<lparr>name = ''notes.txt'', is_dir = False, contents = []\<rparr>"

definition cache_two_kits :: state where
  "cache_two_kits = \<lparr>kdks_root = Some [kit_23E214, kit_23D60, notes_txt], transfers = []\<rparr>"

definition cache_missing :: state where
  "cache_missing = \<lparr>kdks_root = None, transfers = []\<rparr>"

definition sample_parse :: "string \<Rightarrow> (nat \<times> nat) option" where
  "sample_parse v =
     (if v = ''14.4'' then Some (14, 4)
      else if v = ''14.3'' then Some (14, 3)
      else if v = ''13.6'' then Some (13, 6)
      else if v = ''0.0.0'' then Some (0, 0)
      else None)"

definition sample_str :: "nat \<times> nat \<Rightarrow> string" where
  "sample_str v =
     (if v = (14, 4) then ''14.4''
      else if v = (14, 3) then ''14.3''
      else if v = (13, 6) then ''13.6''
      else ''0.0.0'')"

definition sample_date :: "string \<Rightarrow> nat datetime option" where
  "sample_date d =
     (if d = ''2024-03-07'' then Some (Naive 20240307)
      else if d = ''2024-03-07T00:00:00+00:00'' then Some (Aware 20240307)
      else if d = ''2024-02-27'' then Some (Naive 20240227)
      else if d = ''2024-01-22'' then Some (Naive 20240122)
      else if d = ''1984-01-01'' then Some (Naive 19840101)
      else None)"

definition entry_23E214 :: kdk_entry where
  "entry_23E214 =
     \<lparr>kdk_version = ''14.4'', kdk_build = ''23E214'', kdk_date = ''2024-03-07'',
      kdk_url = generate_kdk_link ''14.4'' ''23E214''\<rparr>"

definition entry_23D60 :: kdk_entry where
  "entry_23D60 =
     \<lparr>kdk_version = ''14.3'', kdk_build = ''23D60'', kdk_date = ''2024-01-22'',
      kdk_url = generate_kdk_link ''14.3'' ''23D60''\<rparr>"

definition entry_undated :: kdk_entry where
  "entry_undated =
     \<lparr>kdk_version = ''14.3'', kdk_build = ''23D56'', kdk_date = [],
      kdk_url = generate_kdk_link ''14.3'' ''23D56''\<rparr>"

definition sample_world :: "(nat \<times> nat, nat \<times> nat, nat) world" where
  "sample_world =
     \<lparr>version_parse = sample_parse,
      version_key = (\<lambda>v. v),
      version_major = (\<lambda>v. int (fst v)),
      version_minor = (\<lambda>v. int (snd v)),
      version_str = sample_str,
      fromisoformat = sample_date,
      kdk_api = Response 200 [entry_23D60, entry_23E214],
      os_database = Response 200 [],
      verify_network_connection = True,
      token_request = (\<lambda>link. Response 200 []),
      mirror_repository = Response 200 [],
      download_file = (\<lambda>link. True),
      download_apple_developer_portal = (\<lambda>link. True),
      hdiutil_verify = (\<lambda>link. 0),
      should_nuke_kdks = True\<rparr>"

definition token_unavailable :: "string http" where
  "token_unavailable = Response 400 ''{\"error\": \"The path specified is invalid\"}''"

definition mirror_down_world :: "(nat \<times> nat, nat \<times> nat, nat) world" where
  "mirror_down_world =
     sample_world\<lparr>token_request := (\<lambda>link. Raises Timeout),
                  mirror_repository := Raises ConnectionError\<rparr>"






definition entry_moved :: kdk_entry where
  "entry_moved =
     \<lparr>kdk_version = ''14.4'', kdk_build = ''23E214'', kdk_date = ''2024-03-07'',
      kdk_url = ''https://download.developer.apple.com/macOS/moved/KDK_14.4_23E214.dmg''\<rparr>"

definition entry_22G120 :: kdk_entry where
  "entry_22G120 =
     \<lparr>kdk_version = ''13.6'', kdk_build = ''22G120'', kdk_date = ''2024-01-22'',
      kdk_url = generate_kdk_link ''13.6'' ''22G120''\<rparr>"

definition duplicate_world :: "(nat \<times> nat, nat \<times> nat, nat) world" where
  "duplicate_world =
     sample_world\<lparr>kdk_api := Response 200 [entry_23E214, entry_moved],
                  token_request := (\<lambda>link. if link = kdk_url entry_23E214 then Response 200 []
                                           else token_unavailable)\<rparr>"

definition older_only_world :: "(nat \<times> nat, nat \<times> nat, nat) world" where
  "older_only_world = sample_world\<lparr>kdk_api := Response 200 [entry_23D60]\<rparr>"

definition unrelated_world :: "(nat \<times> nat, nat \<times> nat, nat) world" where
  "unrelated_world = sample_world\<lparr>kdk_api := Response 200 [entry_22G120]\<rparr>"

definition cache_23D60 :: state where
  "cache_23D60 = \<lparr>kdks_root = Some [kit_23D60, notes_txt], transfers = []\<rparr>"

definition cache_broken_first :: state where
  "cache_broken_first = \<lparr>kdks_root = Some [kit_broken, kit_23D60], transfers = []\<rparr>"

definition entry_aware :: kdk_entry where
  "entry_aware =
     \<lparr>kdk_version = ''14.4'', kdk_build = ''23E5211a'',
      kdk_date = ''2024-03-07T00:00:00+00:00'',
      kdk_url = generate_kdk_link ''14.4'' ''23E5211a''\<rparr>"



definition release_23E214 :: release where
  "release_23E214 =
     \<lparr>tag_name = ''23E214'',
      assets = [\<lparr>asset_name = ''Kernel_Debug_Kit_14.4_build_23E214.dmg'',
                 browser_download_url = ''https://github.com/dortania/KdkSupportPkg/releases/''
                   @ ''download/23E214/Kernel_Debug_Kit_14.4_build_23E214.dmg''\<rparr>]\<rparr>"

definition mirror_world :: "(nat \<times> nat, nat \<times> nat, nat) world" where
  "mirror_world =
     sample_world\<lparr>token_request := (\<lambda>link. Raises Timeout),
                  mirror_repository := Response 200 [release_23E214]\<rparr>"

definition cache_broken_23E214 :: state where
  "cache_broken_23E214 = \<lparr>kdks_root = Some [notes_txt, kit_broken, kit_23E214], transfers = []\<rparr>"

text \<open>A version that keeps how it was written, compared by its first two numbers.\<close>

definition padded_parse :: "string \<Rightarrow> ((nat \<times> nat) \<times> string) option" where
  "padded_parse v =
     (if v = ''14.4'' then Some ((14, 4), ''14.4'')
      else if v = ''14.4.0'' then Some ((14, 4), ''14.4.0'')
      else if v = ''0.0.0'' then Some ((0, 0), ''0.0.0'')
      else None)"

definition db_padded :: db_entry where
  "db_padded = \<lparr>db_osType = ''macOS'', db_version = ''14.4.0 RC'', db_build = ''23E5211a'',
                db_released = ''2024-02-27''\<rparr>"

definition padded_world :: "((nat \<times> nat) \<times> string, nat \<times> nat, nat) world" where
  "padded_world =
     \<lparr>version_parse = padded_parse,
      version_key = fst,
      version_major = (\<lambda>v. int (fst (fst v))),
      version_minor = (\<lambda>v. int (snd (fst v))),
      version_str = snd,
      fromisoformat = sample_date,
      kdk_api = Raises Timeout,
      os_database = Response 200 [db_padded],
      verify_network_connection = True,
      token_request = (\<lambda>link. Response 200 []),
      mirror_repository = Response 200 [],
      download_file = (\<lambda>link. True),
      download_apple_developer_portal = (\<lambda>link. True),
      hdiutil_verify = (\<lambda>link. 0),
      should_nuke_kdks = True\<rparr>"

section \<open>Properties\<close>

subsection \<open>The string helpers mean what their names say\<close>

lemma endswith_iff: "endswith s suf \<longleftrightarrow> (\<exists>p. s = p @ suf)"
proof
  assume "endswith s suf"
  then have "s = take (length s - length suf) s @ suf"
    by (metis append_take_drop_id endswith_def)
  then show "\<exists>p. s = p @ suf" ..
next
  assume "\<exists>p. s = p @ suf"
  then show "endswith s suf" by (auto simp: endswith_def)
qed

lemma startswith_iff: "startswith s p \<longleftrightarrow> (\<exists>q. s = p @ q)"
  unfolding startswith_def
  by (metis append_eq_conv_conj append_take_drop_id)

lemma str_in_iff: "str_in sub s \<longleftrightarrow> (\<exists>p q. s = p @ sub @ q)"
proof (induction s)
  case Nil
  then show ?case by auto
next
  case (Cons c cs)
  show ?case
  proof
    assume "str_in sub (c # cs)"
    then consider "startswith (c # cs) sub" | "str_in sub cs" by auto
    then show "\<exists>p q. c # cs = p @ sub @ q"
    proof cases
      case 1
      then obtain q where "c # cs = sub @ q" by (auto simp: startswith_iff)
      then have "c # cs = [] @ sub @ q" by simp
      then show ?thesis by blast
    next
      case 2
      then obtain p q where "cs = p @ sub @ q" using Cons.IH by auto
      then have "c # cs = (c # p) @ sub @ q" by simp
      then show ?thesis by blast
    qed
  next
    assume "\<exists>p q. c # cs = p @ sub @ q"
    then obtain p q where pq: "c # cs = p @ sub @ q" by auto
    show "str_in sub (c # cs)"
    proof (cases p)
      case Nil
      then have "startswith (c # cs) sub" using pq by (auto simp: startswith_iff)
      then show ?thesis by simp
    next
      case (Cons a p')
      then have "cs = p' @ sub @ q" using pq by simp
      then have "str_in sub cs" using Cons.IH by blast
      then show ?thesis by simp
    qed
  qed
qed

subsection \<open>Pruning\<close>

lemma doomed_Nil: "doomed ex [] = {}"
  by (simp add: doomed_def)

lemma doomed_Cons:
  "doomed ex (f # fs) =
     (if is_dir f \<and> endswith (name f) ''.kdk'' \<and> should_remove ex (name f)
      then insert (name f) (doomed ex fs) else doomed ex fs)"
  by (auto simp: doomed_def)

text \<open>The loop deletes exactly the entries that carry a doomed name.\<close>

lemma prune_loop_filter:
  "prune_loop ex fs s =
     s\<lparr>kdks_root := map_option (filter (\<lambda>e. name e \<notin> doomed ex fs)) (kdks_root s)\<rparr>"
proof (induction fs arbitrary: s)
  case Nil
  then show ?case by (cases "kdks_root s") (simp_all add: doomed_Nil)
next
  case (Cons f fs)
  show ?case
    by (cases "kdks_root s")
       (auto simp: Cons.IH doomed_Cons elevated_rm_rf_def intro!: filter_cong)
qed

lemma should_remove_iff:
  "should_remove ex nm \<longleftrightarrow> \<not> (\<exists>b\<in>set ex. b \<noteq> [] \<and> endswith nm (b @ ''.kdk''))"
  by (induction ex) auto

lemma remove_unused_filter:
  assumes "kdks_root s = Some es"
  shows "\<exists>D. remove_unused_kdks nuke ex s = s\<lparr>kdks_root := Some (filter (\<lambda>e. name e \<notin> D) es)\<rparr>
           \<and> D \<subseteq> doomed ex es"
proof (cases "nuke \<and> ex \<noteq> []")
  case True
  then have "remove_unused_kdks nuke ex s =
               s\<lparr>kdks_root := Some (filter (\<lambda>e. name e \<notin> doomed ex es) es)\<rparr>"
    using assms by (simp add: remove_unused_kdks_def prune_loop_filter)
  then show ?thesis by blast
next
  case False
  then have "remove_unused_kdks nuke ex s = s\<lparr>kdks_root := Some (filter (\<lambda>e. name e \<notin> {}) es)\<rparr>"
    using assms by (auto simp: remove_unused_kdks_def)
  then show ?thesis by blast
qed


text \<open>
  C7, as the code has it: pruning keeps every entry of the cache root whose name does not
  end in \<^verbatim>\<open>.kdk\<close>, and every entry whose name ends in \<^verbatim>\<open><b>.kdk\<close> for a non-empty build
  \<open>b\<close> of the exclusion list. (An empty build in the list protects nothing.)
\<close>

theorem prune_keeps_excluded:
  assumes "kdks_root s = Some es" and "e \<in> set es"
    and "\<not> endswith (name e) ''.kdk''
         \<or> (\<exists>b\<in>set ex. b \<noteq> [] \<and> endswith (name e) (b @ ''.kdk''))"
  shows "\<exists>es'. kdks_root (remove_unused_kdks nuke ex s) = Some es' \<and> e \<in> set es'"
proof -
  obtain D where D:
    "remove_unused_kdks nuke ex s = s\<lparr>kdks_root := Some (filter (\<lambda>e. name e \<notin> D) es)\<rparr>"
    "D \<subseteq> doomed ex es"
    using remove_unused_filter[OF assms(1)] by blast
  have "name e \<notin> doomed ex es"
    using assms(3) by (auto simp: doomed_def should_remove_iff)
  then have "name e \<notin> D" using D(2) by blast
  then show ?thesis using D(1) assms(2) by simp
qed

theorem prune_keeps_excluded_witness:
  "(\<exists>es'. kdks_root (remove_unused_kdks True [''23E214'', []] cache_two_kits) = Some es'
      \<and> kit_23E214 \<in> set es')
   \<and> (\<exists>es'. kdks_root (remove_unused_kdks True [''23E214'', []] cache_two_kits) = Some es'
      \<and> notes_txt \<in> set es')"
proof -
  have r: "kdks_root cache_two_kits = Some [kit_23E214, kit_23D60, notes_txt]"
    by (simp add: cache_two_kits_def)
  have a: "\<exists>b\<in>set [''23E214'', []]. b \<noteq> [] \<and> endswith (name kit_23E214) (b @ ''.kdk'')"
    by (simp add: kit_23E214_def endswith_def)
  have b: "\<not> endswith (name notes_txt) ''.kdk''"
    by (simp add: notes_txt_def endswith_def)
  show ?thesis
    using prune_keeps_excluded[OF r, of kit_23E214 "[''23E214'', []]" True]
      prune_keeps_excluded[OF r, of notes_txt "[''23E214'', []]" True] a b
    by simp
qed

text \<open>
  C7, as the claim states it, fails: with the empty build in the exclusion list (which
  \<^verbatim>\<open>download_kdk\<close> passes when there is no closest match), a directory whose name ends in
  \<^verbatim>\<open>"" + ".kdk"\<close> is removed.
\<close>

theorem prune_removes_empty_build_suffix:
  "kdks_root cache_two_kits = Some [kit_23E214, kit_23D60, notes_txt]
   \<and> is_dir kit_23D60
   \<and> [] \<in> set [''23E214'', []]
   \<and> endswith (name kit_23D60) ([] @ ''.kdk'')
   \<and> kdks_root (remove_unused_kdks True [''23E214'', []] cache_two_kits)
       = Some [kit_23E214, notes_txt]"
  by (simp add: cache_two_kits_def kit_23E214_def kit_23D60_def notes_txt_def
      remove_unused_kdks_def elevated_rm_rf_def endswith_def)

text \<open>
  C8: pruning changes nothing when it is disabled by configuration, when the cache root
  does not exist, or when the exclusion list is empty.
\<close>

theorem prune_noop_guards:
  "\<not> nuke \<or> kdks_root s = None \<or> ex = [] \<Longrightarrow> remove_unused_kdks nuke ex s = s"
  by (auto simp: remove_unused_kdks_def split: option.splits)

theorem prune_noop_guards_witness:
  "remove_unused_kdks False [''23E214''] cache_two_kits = cache_two_kits
   \<and> remove_unused_kdks True [''23E214''] cache_missing = cache_missing
   \<and> remove_unused_kdks True [] cache_two_kits = cache_two_kits"
  using prune_noop_guards[of False cache_two_kits "[''23E214'']"]
    prune_noop_guards[of True cache_missing "[''23E214'']"]
    prune_noop_guards[of True cache_two_kits "[]"]
  by (simp add: cache_missing_def)

text \<open>
  C9: a second pruning with the same exclusion list deletes nothing: the state after two
  calls is the state after one.
\<close>

theorem prune_idempotent:
  "remove_unused_kdks nuke ex (remove_unused_kdks nuke ex s) = remove_unused_kdks nuke ex s"
proof (cases "nuke \<and> ex \<noteq> []")
  case False
  then show ?thesis by (auto simp: remove_unused_kdks_def split: option.splits)
next
  case True
  show ?thesis
  proof (cases "kdks_root s")
    case None
    then show ?thesis by (simp add: remove_unused_kdks_def)
  next
    case (Some es)
    let ?es' = "filter (\<lambda>e. name e \<notin> doomed ex es) es"
    let ?t = "s\<lparr>kdks_root := Some ?es'\<rparr>"
    have r: "remove_unused_kdks nuke ex s = ?t"
      using True Some by (simp add: remove_unused_kdks_def prune_loop_filter)
    have "doomed ex ?es' = {}"
      by (auto simp: doomed_def)
    then have f: "filter (\<lambda>e. name e \<notin> doomed ex ?es') ?es' = ?es'" by simp
    have "remove_unused_kdks nuke ex ?t =
            ?t\<lparr>kdks_root := Some (filter (\<lambda>e. name e \<notin> doomed ex ?es') ?es')\<rparr>"
      using True by (simp add: remove_unused_kdks_def prune_loop_filter)
    also have "\<dots> = ?t" by (simp only: f) simp
    finally show ?thesis by (simp only: r)
  qed
qed

theorem prune_idempotent_witness:
  "remove_unused_kdks True [''23E214'']
     (remove_unused_kdks True [''23E214''] cache_two_kits)
   = remove_unused_kdks True [''23E214''] cache_two_kits
   \<and> kdks_root (remove_unused_kdks True [''23E214''] cache_two_kits)
       = Some [kit_23E214, notes_txt]"
  using prune_idempotent[of True "[''23E214'']" cache_two_kits]
  by (simp add: cache_two_kits_def kit_23E214_def kit_23D60_def notes_txt_def
      remove_unused_kdks_def elevated_rm_rf_def endswith_def)

subsection \<open>Sorting\<close>

lemma with_keys_Inr:
  "with_keys key xs = Inr ks \<Longrightarrow> map snd ks = xs \<and> (\<forall>p\<in>set ks. key (snd p) = Inr (fst p))"
  by (induction xs arbitrary: ks) (auto split: sum.splits)

lemma with_keys_total:
  "\<forall>x\<in>set xs. \<exists>k. key x = Inr k \<Longrightarrow> \<exists>ks. with_keys key xs = Inr ks"
  by (induction xs) (auto split: sum.splits)

lemma with_keys_map_snd:
  "\<forall>p\<in>set ps. key (snd p) = Inr (fst p) \<Longrightarrow> with_keys key (map snd ps) = Inr ps"
  by (induction ps) auto

text \<open>A clash is a pair of positions whose keys cannot be ordered.\<close>

lemma clash_iff:
  "clash ks \<longleftrightarrow> (\<exists>i j. i < j \<and> j < length ks \<and> unorderable (ks ! i) (ks ! j))"
proof (induction ks)
  case Nil
  then show ?case by simp
next
  case (Cons a ks)
  show ?case
  proof
    assume "clash (a # ks)"
    then consider "list_ex (unorderable a) ks" | "clash ks" by auto
    then show "\<exists>i j. i < j \<and> j < length (a # ks) \<and> unorderable ((a # ks) ! i) ((a # ks) ! j)"
    proof cases
      case 1
      then obtain n where "n < length ks" "unorderable a (ks ! n)"
        by (auto simp: list_ex_iff in_set_conv_nth)
      then have "0 < Suc n \<and> Suc n < length (a # ks)
                 \<and> unorderable ((a # ks) ! 0) ((a # ks) ! Suc n)" by simp
      then show ?thesis by blast
    next
      case 2
      then obtain i j where "i < j" "j < length ks" "unorderable (ks ! i) (ks ! j)"
        using Cons.IH by blast
      then have "Suc i < Suc j \<and> Suc j < length (a # ks)
                 \<and> unorderable ((a # ks) ! Suc i) ((a # ks) ! Suc j)" by simp
      then show ?thesis by blast
    qed
  next
    assume "\<exists>i j. i < j \<and> j < length (a # ks) \<and> unorderable ((a # ks) ! i) ((a # ks) ! j)"
    then obtain i j where ij: "i < j" "j < length (a # ks)"
      "unorderable ((a # ks) ! i) ((a # ks) ! j)" by blast
    then obtain j' where j': "j = Suc j'" by (cases j) auto
    show "clash (a # ks)"
    proof (cases i)
      case 0
      then have "unorderable a (ks ! j')" "j' < length ks" using ij j' by auto
      then have "list_ex (unorderable a) ks" by (auto simp: list_ex_iff)
      then show ?thesis by simp
    next
      case (Suc i')
      then have "i' < j' \<and> j' < length ks \<and> unorderable (ks ! i') (ks ! j')"
        using ij j' by auto
      then have "clash ks" using Cons.IH by blast
      then show ?thesis by simp
    qed
  qed
qed

text \<open>
  What a sort that returns has done: the result is a rearrangement of the input, its keys
  are non-increasing, and no two keys of the input were unorderable.
\<close>

lemma sorted_reverse_Inr:
  assumes "sorted_reverse key xs = Inr l"
  shows "\<exists>ps. with_keys key l = Inr ps
           \<and> sorted_wrt (\<lambda>a b. ordering_key b \<le> ordering_key a) ps
           \<and> mset l = mset xs"
proof -
  obtain ks where ks: "with_keys key xs = Inr ks"
    and l: "l = map snd (rev (sort_key ordering_key (rev ks)))"
    using assms by (auto simp: sorted_reverse_def split: sum.splits if_splits)
  let ?ps = "rev (sort_key ordering_key (rev ks))"
  have k: "map snd ks = xs" "\<forall>p\<in>set ks. key (snd p) = Inr (fst p)"
    using with_keys_Inr[OF ks] by auto
  then have "\<forall>p\<in>set ?ps. key (snd p) = Inr (fst p)" by simp
  then have a: "with_keys key l = Inr ?ps" unfolding l by (rule with_keys_map_snd)
  have "sorted (map ordering_key (sort_key ordering_key (rev ks)))" by simp
  then have "sorted_wrt (\<lambda>a b. ordering_key a \<le> ordering_key b)
               (sort_key ordering_key (rev ks))"
    by (simp add: sorted_map del: sorted_sort_key)
  then have b: "sorted_wrt (\<lambda>a b. ordering_key b \<le> ordering_key a) ?ps"
    by (simp add: sorted_wrt_rev)
  have "mset ?ps = mset ks" by simp
  then have "mset (map snd ?ps) = mset (map snd ks)" by (metis mset_map)
  then have c: "mset l = mset xs" using l k(1) by simp
  show ?thesis using a b c by blast
qed

lemma sorted_reverse_total:
  assumes "with_keys key xs = Inr ks" and "\<not> clash (map fst ks)"
  shows "\<exists>l. sorted_reverse key xs = Inr l"
  using assms by (simp add: sorted_reverse_def)

lemma sorted_reverse_faults:
  "sorted_reverse key xs = Inl e \<Longrightarrow>
     with_keys key xs = Inl e \<or> (e = TypeError \<and> (\<exists>ks. with_keys key xs = Inr ks \<and> clash (map fst ks)))"
  by (auto simp: sorted_reverse_def split: sum.splits if_splits)

lemmas sample_defs = sample_world_def entry_23E214_def entry_23D60_def entry_undated_def
  sample_parse_def sample_date_def sample_str_def cache_missing_def cache_two_kits_def

lemmas handler_defs = download_kdk_def resolve_candidates_def get_available_kdks_def
  sorted_reverse_def kdk_sort_key_def no_candidates_def truthy_def closest_matches_def
  is_kdk_installed_def verify_apple_developer_portal_def caught_def via_backup_site_def
  kdk_backup_site_def closest_path_def transfer_def raise_for_status_raises_def Let_def
  generate_kdk_link_def unorderable_def ordering_key_def

lemmas sample_defs2 = entry_moved_def entry_22G120_def duplicate_world_def older_only_world_def
  unrelated_world_def cache_23D60_def cache_broken_first_def token_unavailable_def
  kit_23E214_def kit_23D60_def kit_broken_def notes_txt_def intact_def kexts_to_check_def
  remove_unused_kdks_def elevated_rm_rf_def endswith_def startswith_def

subsection \<open>The catalog\<close>

text \<open>
  When the request succeeds with status 200, the version and the date of every record
  parse and no two sort keys are unorderable, \<^verbatim>\<open>get_available_kdks\<close> returns the
  records, each exactly once, in non-increasing order of (version key, date).
\<close>

lemma catalog_sorted:
  assumes "kdk_api w = Response 200 json"
    and "with_keys (kdk_sort_key w) json = Inr ks"
    and "\<not> clash (map fst ks)"
  shows "\<exists>l ps. get_available_kdks w = Inr (Some l) \<and> mset l = mset json
           \<and> with_keys (kdk_sort_key w) l = Inr ps
           \<and> sorted_wrt (\<lambda>a b. ordering_key b \<le> ordering_key a) ps"
proof -
  obtain l where l: "sorted_reverse (kdk_sort_key w) json = Inr l"
    using sorted_reverse_total[OF assms(2,3)] by blast
  then have "get_available_kdks w = Inr (Some l)"
    using assms(1) by (simp add: get_available_kdks_def)
  then show ?thesis using sorted_reverse_Inr[OF l] by blast
qed


text \<open>
  C6 fails on the code: \<^verbatim>\<open>get_available_kdks\<close> has no sentinel for a malformed version
  or date, which \<^verbatim>\<open>get_closest_match_legacy\<close> has for an unmatched version and an empty
  date. A record with an empty date makes the sort key raise ValueError; the record is not
  sorted last.
\<close>

theorem undated_raises:
  "fromisoformat sample_world (kdk_date entry_undated) = None
   \<and> get_available_kdks (sample_world\<lparr>kdk_api := Response 200 [entry_23E214, entry_undated]\<rparr>)
       = Inl ValueError"
  by (simp add: sample_defs handler_defs)

text \<open>
  Two records of equal version, one with an offset-naive and one with an offset-aware date,
  make the sort raise TypeError.
\<close>

lemma mixed_offsets_raise:
  "get_available_kdks (sample_world\<lparr>kdk_api := Response 200 [entry_23E214, entry_aware]\<rparr>)
     = Inl TypeError"
  by (simp add: sample_defs handler_defs entry_aware_def)

subsection \<open>The legacy matcher\<close>



lemma closest_match_spec_first:
  "closest_match_spec w hv hb builds = (Some l, vs, b) \<Longrightarrow>
     \<exists>i v. i < length builds \<and> qualifies w hv hb (builds ! i)
       \<and> (\<forall>j<i. \<not> qualifies w hv hb (builds ! j))
       \<and> entry_version w (builds ! i) = Some v
       \<and> l = generate_kdk_link (version_str w v) (db_build (builds ! i))
       \<and> vs = version_str w v \<and> b = db_build (builds ! i)"
  unfolding closest_match_spec_def
  by (auto split: option.splits simp: find_Some_iff)

lemma closest_match_spec_none:
  "(\<forall>e\<in>set builds. \<not> qualifies w hv hb e) \<Longrightarrow> closest_match_spec w hv hb builds = (None, [], [])"
proof -
  assume "\<forall>e\<in>set builds. \<not> qualifies w hv hb e"
  then have "find (qualifies w hv hb) builds = None" by (simp add: find_None_iff)
  then show ?thesis by (simp add: closest_match_spec_def)
qed

text \<open>
  The sort of the macOS records does not raise when every leading version token and the
  sentinel \<^verbatim>\<open>0.0.0\<close> parse, every release date is empty or parses, the sentinel date
  parses, and no two sort keys are unorderable.
\<close>

lemma legacy_keys_total:
  assumes "\<forall>e\<in>set es. \<forall>t. version_pattern_match (db_version e) = Some t
             \<longrightarrow> version_parse w t \<noteq> None"
    and "version_parse w ''0.0.0'' \<noteq> None"
    and "\<forall>e\<in>set es. db_released e \<noteq> [] \<longrightarrow> fromisoformat w (db_released e) \<noteq> None"
    and "fromisoformat w ''1984-01-01'' \<noteq> None"
  shows "\<exists>ks. with_keys (legacy_sort_key w) es = Inr ks"
proof -
  have "\<forall>e\<in>set es. \<exists>k. legacy_sort_key w e = Inr k"
    using assms by (auto simp: legacy_sort_key_def split: option.splits)
  then show ?thesis by (rule with_keys_total)
qed





text \<open>An unparsable host version raises before the database is asked.\<close>

lemma legacy_host_version_raises:
  "version_parse w host_version = None
     \<Longrightarrow> get_closest_match_legacy w host_version host_build = Inl InvalidVersion"
  by (simp add: get_closest_match_legacy_def)

text \<open>
  The version returned is \<^verbatim>\<open>str\<close> of the record's own parsed token, also when it compares
  equal to the host version.
\<close>

lemma padded_version_kept:
  "get_closest_match_legacy padded_world ''14.4'' ''23E214''
     = Inr (Some (generate_kdk_link ''14.4.0'' ''23E5211a''), ''14.4.0'', ''23E5211a'')"
  by (simp add: get_closest_match_legacy_def padded_world_def padded_parse_def db_padded_def
      sample_date_def sorted_reverse_def legacy_sort_key_def legacy_matches_def
      version_pattern_match_def digits_then_def is_digit_def)

subsection \<open>The portal probe\<close>

text \<open>
  C4, as the code has it: \<^verbatim>\<open>verify_apple_developer_portal\<close> returns 3 (network error)
  when the connectivity check fails; otherwise 2 (portal down) when the token request raises
  Timeout, TooManyRedirects or ConnectionError; 1 (file not available) when the status is
  400 and the body contains \<^verbatim>\<open>The path specified is invalid\<close>; 2 for every other status
  from 400 to 599, on which \<^verbatim>\<open>raise_for_status\<close> raises; and 0 (available) for every
  status outside 400 to 599, whether a success status or not.
\<close>

theorem verify_portal_cases:
  "(\<not> verify_network_connection w \<longrightarrow> verify_apple_developer_portal w link = Inr 3)
   \<and> (verify_network_connection w \<and> token_request w link = Raises x \<and> caught x
        \<longrightarrow> verify_apple_developer_portal w link = Inr 2)
   \<and> (verify_network_connection w \<and> token_request w link = Response 400 body
        \<and> str_in ''The path specified is invalid'' body
        \<longrightarrow> verify_apple_developer_portal w link = Inr 1)
   \<and> (verify_network_connection w \<and> token_request w link = Response st body
        \<and> 400 \<le> st \<and> st < 600 \<and> \<not> (st = 400 \<and> str_in ''The path specified is invalid'' body)
        \<longrightarrow> verify_apple_developer_portal w link = Inr 2)
   \<and> (verify_network_connection w \<and> token_request w link = Response st body
        \<and> \<not> (400 \<le> st \<and> st < 600)
        \<longrightarrow> verify_apple_developer_portal w link = Inr 0)"
  by (simp add: verify_apple_developer_portal_def raise_for_status_raises_def)

theorem verify_portal_cases_witness:
  "verify_apple_developer_portal (sample_world\<lparr>verify_network_connection := False\<rparr>) ''u'' = Inr 3
   \<and> verify_apple_developer_portal (sample_world\<lparr>token_request := (\<lambda>l. Raises Timeout)\<rparr>) ''u'' = Inr 2
   \<and> verify_apple_developer_portal (sample_world\<lparr>token_request := (\<lambda>l. token_unavailable)\<rparr>) ''u'' = Inr 1
   \<and> verify_apple_developer_portal (sample_world\<lparr>token_request := (\<lambda>l. Response 503 [])\<rparr>) ''u'' = Inr 2
   \<and> verify_apple_developer_portal sample_world ''u'' = Inr 0"
proof -
  have s: "str_in ''The path specified is invalid'' ''{\"error\": \"The path specified is invalid\"}''"
    by (simp add: startswith_def)
  have n: "verify_network_connection sample_world"
    by (simp add: sample_world_def)
  have 1: "verify_apple_developer_portal (sample_world\<lparr>verify_network_connection := False\<rparr>) ''u'' = Inr 3"
    using verify_portal_cases[where w = "sample_world\<lparr>verify_network_connection := False\<rparr>"
          and link = "''u''"]
    by simp
  have 2: "verify_apple_developer_portal (sample_world\<lparr>token_request := (\<lambda>l. Raises Timeout)\<rparr>) ''u'' = Inr 2"
    using verify_portal_cases[where w = "sample_world\<lparr>token_request := (\<lambda>l. Raises Timeout)\<rparr>"
          and link = "''u''" and x = Timeout] n
    by (simp add: caught_def)
  have 3: "verify_apple_developer_portal (sample_world\<lparr>token_request := (\<lambda>l. token_unavailable)\<rparr>) ''u'' = Inr 1"
    using verify_portal_cases[where w = "sample_world\<lparr>token_request := (\<lambda>l. token_unavailable)\<rparr>"
          and link = "''u''" and body = "''{\"error\": \"The path specified is invalid\"}''"
          and st = 400] n
    by (simp add: token_unavailable_def startswith_def)
  have 4: "verify_apple_developer_portal (sample_world\<lparr>token_request := (\<lambda>l. Response 503 [])\<rparr>) ''u'' = Inr 2"
    using verify_portal_cases[where w = "sample_world\<lparr>token_request := (\<lambda>l. Response 503 [])\<rparr>"
          and link = "''u''" and st = 503 and body = "[]"] n
    by simp
  have 5: "verify_apple_developer_portal sample_world ''u'' = Inr 0"
    using verify_portal_cases[where w = sample_world and link = "''u''" and st = 200 and body = "[]"] n
    by (simp add: sample_world_def)
  show ?thesis using 1 2 3 4 5 by simp
qed

text \<open>
  C4, as the claim states it, fails: a status that is neither a success nor an error, such
  as 304, gives 0 (available) and not 2 (portal down).
\<close>

theorem not_modified_is_available:
  "token_request (sample_world\<lparr>token_request := (\<lambda>l. Response 304 [])\<rparr>) ''u'' = Response 304 []
   \<and> verify_apple_developer_portal (sample_world\<lparr>token_request := (\<lambda>l. Response 304 [])\<rparr>) ''u''
       = Inr 0"
  by (simp add: sample_world_def verify_apple_developer_portal_def raise_for_status_raises_def)

subsection \<open>Faults that leave download_kdk\<close>

text \<open>
  C3 fails on the code: \<^verbatim>\<open>kdk_backup_site\<close> calls \<^verbatim>\<open>requests.get\<close> outside any
  \<^verbatim>\<open>try\<close>, unlike the three other requests of the handler. When the portal is down and
  the request to the mirror raises ConnectionError, the exception leaves \<^verbatim>\<open>download_kdk\<close>.
\<close>

theorem mirror_fault_escapes:
  "download_kdk mirror_down_world ''14.4'' ''23E214'' cache_missing
     = Inl (RequestException ConnectionError)"
  by (simp add: mirror_down_world_def sample_defs handler_defs)

text \<open>The same for a record with an empty date during the sort of the catalog.\<close>

lemma sort_fault_escapes:
  "download_kdk (sample_world\<lparr>kdk_api := Response 200 [entry_23E214, entry_undated]\<rparr>)
     ''14.4'' ''23E214'' cache_missing = Inl ValueError"
  by (simp add: sample_defs handler_defs)

subsection \<open>The orchestrator\<close>











lemma installed_True_state:
  "is_kdk_installed b s = (True, s') \<Longrightarrow> s' = s"
proof -
  have "fst (installed_loop b fs t) \<Longrightarrow> snd (installed_loop b fs t) = t" for fs t
    by (induction fs) auto
  then show "is_kdk_installed b s = (True, s') \<Longrightarrow> s' = s"
    by (auto simp: is_kdk_installed_def split: option.splits) (metis fst_conv snd_conv)
qed

lemma closest_path_installed:
  assumes "fst (is_kdk_installed (closest_build c) s)"
  shows "closest_path w b c s
           = Inr ((True, [], closest_build c),
                  remove_unused_kdks (should_nuke_kdks w) [b, closest_build c] s)"
proof -
  obtain s2 where i: "is_kdk_installed (closest_build c) s = (True, s2)"
    using assms by (cases "is_kdk_installed (closest_build c) s") auto
  then have "s2 = s" by (rule installed_True_state)
  then show ?thesis using i by (simp add: closest_path_def)
qed

lemma closest_path_not_installed:
  assumes "\<not> fst (is_kdk_installed (closest_build c) s)"
    and "closest_path w b c s = Inr ((True, m, rb), s')"
  shows "rb = b"
  using assms
  by (auto simp: closest_path_def via_backup_site_def transfer_def Let_def
      split: prod.splits bool.splits option.splits sum.splits if_splits)

lemma download_kdk_unavailable:
  assumes "is_kdk_installed build s = (False, s1)"
    and "resolve_candidates w version build = Inr c"
    and "primary_unavailable w c"
  shows "download_kdk w version build s = closest_path w build c s1"
  using assms
  by (auto simp: download_kdk_def primary_unavailable_def split: option.splits)

text \<open>
  C2, as the code has it: a resolution that takes the branch where the closest candidate's
  build is found installed succeeds with the closest build as resolved build; every other
  successful resolution (the requested build already installed, or a transfer of the
  primary, the closest-match or a mirror copy) reports the requested build.
\<close>

theorem success_resolved_build:
  "(takes_closest_installed w version build s c \<longrightarrow>
      download_kdk w version build s
        = Inr ((True, [], closest_build c),
               remove_unused_kdks (should_nuke_kdks w) [build, closest_build c]
                 (snd (is_kdk_installed build s))))
   \<and> (download_kdk w version build s = Inr ((True, msg, rb), s')
        \<and> \<not> (\<exists>c. takes_closest_installed w version build s c)
      \<longrightarrow> rb = build)"
proof (intro conjI impI)
  assume t: "takes_closest_installed w version build s c"
  obtain s1 where s1: "is_kdk_installed build s = (False, s1)"
    using t by (cases "is_kdk_installed build s") (auto simp: takes_closest_installed_def)
  have "download_kdk w version build s = closest_path w build c s1"
    using t s1 download_kdk_unavailable[of build s s1 w version c]
    by (simp add: takes_closest_installed_def)
  moreover have "fst (is_kdk_installed (closest_build c) s1)"
    using t s1 by (simp add: takes_closest_installed_def)
  ultimately show "download_kdk w version build s
        = Inr ((True, [], closest_build c),
               remove_unused_kdks (should_nuke_kdks w) [build, closest_build c]
                 (snd (is_kdk_installed build s)))"
    using s1 by (simp add: closest_path_installed)
next
  assume a: "download_kdk w version build s = Inr ((True, msg, rb), s')
             \<and> \<not> (\<exists>c. takes_closest_installed w version build s c)"
  obtain inst s1 where s1: "is_kdk_installed build s = (inst, s1)"
    by (cases "is_kdk_installed build s") auto
  show "rb = build"
  proof (cases inst)
    case True
    then show ?thesis using a s1 by (simp add: download_kdk_def)
  next
    case False
    then obtain c where c: "resolve_candidates w version build = Inr c"
      using a s1 by (auto simp: download_kdk_def split: sum.splits)
    show ?thesis
    proof (cases "primary_unavailable w c")
      case True
      have d: "download_kdk w version build s = closest_path w build c s1"
        using download_kdk_unavailable[of build s s1 w version c] s1 False c True by simp
      have "\<not> takes_closest_installed w version build s c" using a by blast
      then have "\<not> fst (is_kdk_installed (closest_build c) s1)"
        using s1 False c True by (simp add: takes_closest_installed_def)
      then show ?thesis using closest_path_not_installed[of c s1 w build msg rb s'] a d by simp
    next
      case pa: False
      then show ?thesis
        using a s1 False c
        by (auto simp: download_kdk_def primary_unavailable_def via_backup_site_def
            transfer_def Let_def split: option.splits sum.splits if_splits)
    qed
  qed
qed

theorem success_resolved_build_witness:
  "download_kdk older_only_world ''14.4'' ''23E214'' cache_23D60
     = Inr ((True, [], ''23D60''), cache_23D60)
   \<and> (\<exists>s'. download_kdk older_only_world ''14.4'' ''23E214'' cache_missing
              = Inr ((True, [], ''23E214''), s')
            \<and> transfers s' = [generate_kdk_link ''14.3'' ''23D60''])
   \<and> (\<exists>s'. download_kdk mirror_world ''14.4'' ''23E214'' cache_missing
              = Inr ((True, [], ''23E214''), s')
            \<and> transfers s' = [browser_download_url (hd (assets release_23E214))])"
proof -
  let ?c = "\<lparr>download_link = None,
             closest_match_download_link = Some (generate_kdk_link ''14.3'' ''23D60''),
             closest_version = ''14.3'', closest_build = ''23D60''\<rparr>"
  have r: "resolve_candidates older_only_world ''14.4'' ''23E214'' = Inr ?c"
    by (simp add: sample_defs sample_defs2 handler_defs)
  have t: "takes_closest_installed older_only_world ''14.4'' ''23E214'' cache_23D60 ?c"
    unfolding takes_closest_installed_def r
    by (simp add: sample_defs sample_defs2 is_kdk_installed_def primary_unavailable_def)
  have p: "remove_unused_kdks (should_nuke_kdks older_only_world) [''23E214'', ''23D60'']
             (snd (is_kdk_installed ''23E214'' cache_23D60)) = cache_23D60"
    by (simp add: sample_defs sample_defs2 is_kdk_installed_def)
  have 1: "download_kdk older_only_world ''14.4'' ''23E214'' cache_23D60
             = Inr ((True, [], ''23D60''), cache_23D60)"
    using success_resolved_build[of older_only_world "''14.4''" "''23E214''" cache_23D60 ?c] t p
    by simp
  obtain rb s2 where d2: "download_kdk older_only_world ''14.4'' ''23E214'' cache_missing
                          = Inr ((True, [], rb), s2)"
    and t2: "transfers s2 = [generate_kdk_link ''14.3'' ''23D60'']"
    by (simp add: sample_defs sample_defs2 handler_defs)
  have n2: "\<not> (\<exists>c. takes_closest_installed older_only_world ''14.4'' ''23E214'' cache_missing c)"
    by (simp add: takes_closest_installed_def is_kdk_installed_def cache_missing_def)
  have "rb = ''23E214''"
    using success_resolved_build[of older_only_world "''14.4''" "''23E214''" cache_missing _
        "[]" rb s2] d2 n2 by simp
  then have 2: "\<exists>s'. download_kdk older_only_world ''14.4'' ''23E214'' cache_missing
              = Inr ((True, [], ''23E214''), s')
            \<and> transfers s' = [generate_kdk_link ''14.3'' ''23D60'']"
    using d2 t2 by blast
  obtain rb3 s3 where d3: "download_kdk mirror_world ''14.4'' ''23E214'' cache_missing
                          = Inr ((True, [], rb3), s3)"
    and t3: "transfers s3 = [browser_download_url (hd (assets release_23E214))]"
    by (simp add: sample_defs sample_defs2 handler_defs mirror_world_def release_23E214_def)
  have n3: "\<not> (\<exists>c. takes_closest_installed mirror_world ''14.4'' ''23E214'' cache_missing c)"
    by (simp add: takes_closest_installed_def is_kdk_installed_def cache_missing_def)
  have "rb3 = ''23E214''"
    using success_resolved_build[of mirror_world "''14.4''" "''23E214''" cache_missing _
        "[]" rb3 s3] d3 n3 by simp
  then have 3: "\<exists>s'. download_kdk mirror_world ''14.4'' ''23E214'' cache_missing
              = Inr ((True, [], ''23E214''), s')
            \<and> transfers s' = [browser_download_url (hd (assets release_23E214))]"
    using d3 t3 by blast
  show ?thesis using 1 2 3 by simp
qed

text \<open>
  C2, as the claim states it, fails: with 23D60 installed and only the 23D60 record in the
  catalog, a request for 23E214 succeeds with resolved build 23D60.
\<close>

theorem closest_installed_returns_closest:
  "download_kdk older_only_world ''14.4'' ''23E214'' cache_23D60
     = Inr ((True, [], ''23D60''), cache_23D60)"
  by (simp add: sample_defs sample_defs2 handler_defs)

text \<open>
  The first entry of the cache root that is a directory with the suffix decides
  \<^verbatim>\<open>is_kdk_installed\<close>, whatever follows it: intact, the answer is True; corrupted, it is
  removed and the answer is False.
\<close>

lemma installed_loop_first:
  "installed_loop b es s =
     (case find (carries_suffix b) es of
        None \<Rightarrow> (False, s)
      | Some f \<Rightarrow> if kexts_exist f kexts_to_check then (True, s)
                  else (False, elevated_rm_rf (name f) s))"
  by (induction es) (auto simp: carries_suffix_def)

lemma is_kdk_installed_first:
  assumes "kdks_root s = Some es"
  shows "is_kdk_installed b s =
     (case find (carries_suffix b) es of
        None \<Rightarrow> (False, s)
      | Some f \<Rightarrow> if kexts_exist f kexts_to_check then (True, s)
                  else (False, elevated_rm_rf (name f) s))"
  using assms by (simp add: is_kdk_installed_def installed_loop_first)

text \<open>
  C10, as the code has it: with the empty build the suffix test is met by every directory
  whose name ends in \<^verbatim>\<open>.kdk\<close>, and the first of them, \<open>f\<close>, decides: intact,
  \<^verbatim>\<open>is_kdk_installed("")\<close> is True; corrupted, it removes \<open>f\<close> and is False. So when the
  requested build is not installed, the primary candidate is unavailable and the closest
  build is \<^verbatim>\<open>""\<close>, \<^verbatim>\<open>download_kdk\<close> returns \<^verbatim>\<open>(True, "", "")\<close> if \<open>f\<close> is intact, after pruning
  with the exclusion list \<^verbatim>\<open>[build, ""]\<close>, and, with no closest link, the no-closest-match
  failure if \<open>f\<close> is corrupted.
\<close>

theorem empty_build_installed:
  assumes "kdks_root s1 = Some es"
    and "find (carries_suffix []) es = Some f"
  shows "is_kdk_installed [] s1
           = (if kexts_exist f kexts_to_check then (True, s1)
              else (False, elevated_rm_rf (name f) s1))
         \<and> (is_kdk_installed build s = (False, s1)
              \<and> resolve_candidates w version build = Inr c
              \<and> primary_unavailable w c \<and> closest_build c = []
            \<longrightarrow> (kexts_exist f kexts_to_check
                   \<longrightarrow> download_kdk w version build s
                         = Inr ((True, [], []),
                                remove_unused_kdks (should_nuke_kdks w) [build, []] s1))
                \<and> (\<not> kexts_exist f kexts_to_check \<and> closest_match_download_link c = None
                   \<longrightarrow> download_kdk w version build s
                         = Inr ((False, ''Could not find KDK for host, nor closest match'', []),
                                elevated_rm_rf (name f) s1)))"
proof -
  have i: "is_kdk_installed [] s1
           = (if kexts_exist f kexts_to_check then (True, s1)
              else (False, elevated_rm_rf (name f) s1))"
    using is_kdk_installed_first[OF assms(1), of "[]"] assms(2) by simp
  have "download_kdk w version build s
          = Inr ((True, [], []), remove_unused_kdks (should_nuke_kdks w) [build, []] s1)"
    if "is_kdk_installed build s = (False, s1)" "resolve_candidates w version build = Inr c"
      "primary_unavailable w c" "closest_build c = []" "kexts_exist f kexts_to_check"
    using that i download_kdk_unavailable[of build s s1 w version c]
    by (simp add: closest_path_def)
  moreover have "download_kdk w version build s
          = Inr ((False, ''Could not find KDK for host, nor closest match'', []),
                 elevated_rm_rf (name f) s1)"
    if "is_kdk_installed build s = (False, s1)" "resolve_candidates w version build = Inr c"
      "primary_unavailable w c" "closest_build c = []" "\<not> kexts_exist f kexts_to_check"
      "closest_match_download_link c = None"
    using that i download_kdk_unavailable[of build s s1 w version c]
    by (simp add: closest_path_def)
  ultimately show ?thesis using i by blast
qed

theorem empty_build_installed_witness:
  "is_kdk_installed [] cache_23D60 = (True, cache_23D60)
   \<and> download_kdk unrelated_world ''14.4'' ''23E214'' cache_23D60
       = Inr ((True, [], []), \<lparr>kdks_root = Some [notes_txt], transfers = []\<rparr>)
   \<and> is_kdk_installed [] cache_broken_23E214
       = (False, \<lparr>kdks_root = Some [notes_txt, kit_23E214], transfers = []\<rparr>)
   \<and> download_kdk unrelated_world ''14.3'' ''23D60'' cache_broken_23E214
       = Inr ((False, ''Could not find KDK for host, nor closest match'', []),
              \<lparr>kdks_root = Some [notes_txt, kit_23E214], transfers = []\<rparr>)"
proof -
  have a: "is_kdk_installed ''23E214'' cache_23D60 = (False, cache_23D60)"
    by (simp add: sample_defs sample_defs2 handler_defs)
  have b: "resolve_candidates unrelated_world ''14.4'' ''23E214'' = Inr no_candidates"
    by (simp add: sample_defs sample_defs2 handler_defs)
  have c: "primary_unavailable unrelated_world no_candidates"
    by (simp add: primary_unavailable_def no_candidates_def)
  have d: "closest_build no_candidates = []" "closest_match_download_link no_candidates = None"
    by (simp_all add: no_candidates_def)
  have e: "kdks_root cache_23D60 = Some [kit_23D60, notes_txt]"
    by (simp add: cache_23D60_def)
  have f: "find (carries_suffix []) [kit_23D60, notes_txt] = Some kit_23D60"
    by (simp add: sample_defs2 carries_suffix_def)
  have g: "kexts_exist kit_23D60 kexts_to_check"
    by (simp add: sample_defs2)
  have h: "remove_unused_kdks (should_nuke_kdks unrelated_world) [''23E214'', []] cache_23D60
             = \<lparr>kdks_root = Some [notes_txt], transfers = []\<rparr>"
    by (simp add: sample_defs sample_defs2)
  have 1: "is_kdk_installed [] cache_23D60 = (True, cache_23D60)
           \<and> download_kdk unrelated_world ''14.4'' ''23E214'' cache_23D60
               = Inr ((True, [], []), \<lparr>kdks_root = Some [notes_txt], transfers = []\<rparr>)"
    using empty_build_installed[OF e f, of "''23E214''" cache_23D60 unrelated_world "''14.4''"
        no_candidates] a b c d g h by simp
  have a': "is_kdk_installed ''23D60'' cache_broken_23E214 = (False, cache_broken_23E214)"
    by (simp add: sample_defs sample_defs2 handler_defs cache_broken_23E214_def)
  have b': "resolve_candidates unrelated_world ''14.3'' ''23D60'' = Inr no_candidates"
    by (simp add: sample_defs sample_defs2 handler_defs)
  have e': "kdks_root cache_broken_23E214 = Some [notes_txt, kit_broken, kit_23E214]"
    by (simp add: cache_broken_23E214_def)
  have f': "find (carries_suffix []) [notes_txt, kit_broken, kit_23E214] = Some kit_broken"
    by (simp add: sample_defs2 carries_suffix_def)
  have g': "\<not> kexts_exist kit_broken kexts_to_check"
    by (simp add: sample_defs2)
  have h': "elevated_rm_rf (name kit_broken) cache_broken_23E214
              = \<lparr>kdks_root = Some [notes_txt, kit_23E214], transfers = []\<rparr>"
    by (simp add: sample_defs2 cache_broken_23E214_def)
  have 2: "is_kdk_installed [] cache_broken_23E214
             = (False, \<lparr>kdks_root = Some [notes_txt, kit_23E214], transfers = []\<rparr>)
           \<and> download_kdk unrelated_world ''14.3'' ''23D60'' cache_broken_23E214
               = Inr ((False, ''Could not find KDK for host, nor closest match'', []),
                      \<lparr>kdks_root = Some [notes_txt, kit_23E214], transfers = []\<rparr>)"
    using empty_build_installed[OF e' f', of "''23D60''" cache_broken_23E214 unrelated_world
        "''14.3''" no_candidates] a' b' c d g' h' by simp
  show ?thesis using 1 2 by simp
qed

text \<open>
  C10, as the claim states it, fails: an intact kit does not make \<^verbatim>\<open>is_kdk_installed("")\<close>
  True when a corrupted one is listed before it. The corrupted one is removed, the answer
  is False, and the resolution ends in the no-closest-match failure.
\<close>

theorem broken_first_not_installed:
  "kdks_root cache_broken_first = Some [kit_broken, kit_23D60]
   \<and> is_dir kit_23D60 \<and> endswith (name kit_23D60) ([] @ ''.kdk'')
   \<and> kexts_exist kit_23D60 kexts_to_check
   \<and> is_kdk_installed [] cache_broken_first
       = (False, \<lparr>kdks_root = Some [kit_23D60], transfers = []\<rparr>)
   \<and> download_kdk unrelated_world ''14.4'' ''23E214'' cache_broken_first
       = Inr ((False, ''Could not find KDK for host, nor closest match'', []),
              \<lparr>kdks_root = Some [kit_23D60], transfers = []\<rparr>)"
  by (simp add: sample_defs sample_defs2 handler_defs)

end
